theory Spec2Isabelle
  imports Complex_Main "HOL-Library.Multiset"
begin

section \<open>Data model\<close>

text \<open>
  Modelled from the spec: \<^verbatim>\<open>app/models.py\<close> (the classes \<^verbatim>\<open>Organisation\<close>,
  \<^verbatim>\<open>Location\<close>, \<^verbatim>\<open>CreateOrganisation\<close>, \<^verbatim>\<open>CreateLocation\<close>) is not among the
  sources. The spec gives an Organisation an integer \<^verbatim>\<open>id\<close> (server-generated primary
  key) and a \<^verbatim>\<open>name\<close>; a Location an integer \<^verbatim>\<open>id\<close>, an \<^verbatim>\<open>organisation_id\<close>, a
  \<^verbatim>\<open>location_name\<close> and the floating-point \<^verbatim>\<open>longitude\<close> and \<^verbatim>\<open>latitude\<close>. The field
  \<^verbatim>\<open>id\<close> is written \<open>id'\<close>. Coordinates are \<open>real\<close>: the code only stores and
  compares them, and the comparisons of Python floats and of SQL \<^verbatim>\<open>REAL\<close> values
  (NaN apart, which JSON cannot carry) are those of the reals.
\<close>

record CreateOrganisation =
  name :: string

record CreateLocation =
  organisation_id :: int
  location_name :: string
  longitude :: real
  latitude :: real

record Organisation =
  id' :: int
  name :: string

record Location =
  id' :: int
  organisation_id :: int
  location_name :: string
  longitude :: real
  latitude :: real

text \<open>
  The values of the dictionaries that \<^verbatim>\<open>get_locations_by_organisation_id\<close> returns: a
  string or a number. A dictionary literal is an association list in the order its keys are
  written.
\<close>

datatype json = JStr string | JNum real

type_synonym dict = "(string \<times> json) list"

text \<open>
  What a request can end with other than a result: the \<^verbatim>\<open>HTTPException\<close> the route
  raises (status code and detail), the validation failure of the framework for a query that
  does not fit the declared parameter type, and a failure of the store, which no function
  of the repository catches.
\<close>

datatype error =
    HTTPException int string
  | RequestValidationError
  | IntegrityError

section \<open>The persistence store behind a session\<close>

text \<open>
  Modelled from the spec: the store (\<^verbatim>\<open>app/db.py\<close>, the migrations and the database) is
  not among the sources. A session is a handle on two tables, \<^verbatim>\<open>organisation\<close> and
  \<^verbatim>\<open>location\<close>, kept in insertion order. Whether the store enforces the reference from
  \<^verbatim>\<open>location.organisation_id\<close> to \<^verbatim>\<open>organisation.id\<close> is not visible in the sources
  (the spec: "delegates integrity to the store, if configured"), so it is a parameter of
  the store, \<open>foreign_keys\<close>.
\<close>

record Session =
  organisation_rows :: "Organisation list"
  location_rows :: "Location list"
  foreign_keys :: bool

definition empty_store :: "bool \<Rightarrow> Session" where
  "empty_store fk = \<lparr>organisation_rows = [], location_rows = [], foreign_keys = fk\<rparr>"

text \<open>
  Modelled from the spec: the identifier is "server-generated, unique". The store gives a
  new row the key after the largest key of its table (1 in an empty table).
\<close>

definition next_rowid :: "int list \<Rightarrow> int" where
  "next_rowid ids = foldr max ids 0 + 1"

text \<open>
  \<^verbatim>\<open>session.add(organisation); session.commit(); session.refresh(organisation)\<close> for an
  \<^verbatim>\<open>Organisation(name=name)\<close>: the row is inserted with a generated key and read back.
\<close>

definition add_commit_refresh_organisation :: "string \<Rightarrow> Session \<Rightarrow> Organisation \<times> Session" where
  "add_commit_refresh_organisation nm s =
     (let row = \<lparr>Organisation.id' = next_rowid (map Organisation.id' (organisation_rows s)),
                 Organisation.name = nm\<rparr>
      in (row, s\<lparr>organisation_rows := organisation_rows s @ [row]\<rparr>))"

text \<open>
  The same three calls for a \<^verbatim>\<open>Location\<close>. A store that enforces the foreign key refuses,
  at the commit, a row whose \<^verbatim>\<open>organisation_id\<close> is the key of no organisation.
\<close>

definition add_commit_refresh_location ::
  "int \<Rightarrow> string \<Rightarrow> real \<Rightarrow> real \<Rightarrow> Session \<Rightarrow> error + Location \<times> Session" where
  "add_commit_refresh_location oid nm lon lat s =
     (if foreign_keys s \<and> oid \<notin> set (map Organisation.id' (organisation_rows s))
      then Inl IntegrityError
      else
        let row = \<lparr>Location.id' = next_rowid (map Location.id' (location_rows s)),
                   Location.organisation_id = oid,
                   Location.location_name = nm,
                   Location.longitude = lon,
                   Location.latitude = lat\<rparr>
        in Inr (row, s\<lparr>location_rows := location_rows s @ [row]\<rparr>))"

text \<open>
  \<^verbatim>\<open>select(Location.location_name, Location.longitude, Location.latitude)\<close> with its
  \<^verbatim>\<open>where\<close> clauses: a query is the list of its conditions, \<^verbatim>\<open>where\<close> adds conditions to
  those already there, and running it gives, for every row that meets all of them, the three
  selected columns.
\<close>

type_synonym row = "string \<times> real \<times> real"

record query =
  where_clauses :: "(Location \<Rightarrow> bool) list"

definition select_location_columns :: query where
  "select_location_columns = \<lparr>where_clauses = []\<rparr>"

definition where_query :: "query \<Rightarrow> (Location \<Rightarrow> bool) list \<Rightarrow> query" where
  "where_query q cs = q\<lparr>where_clauses := where_clauses q @ cs\<rparr>"

definition exec_all :: "query \<Rightarrow> Session \<Rightarrow> row list" where
  "exec_all q s =
     map (\<lambda>l. (Location.location_name l, Location.longitude l, Location.latitude l))
       (filter (\<lambda>l. list_all (\<lambda>c. c l) (where_clauses q)) (location_rows s))"

section \<open>Repository layer (\<^verbatim>\<open>organisations_repository.py\<close>)\<close>

definition create_organisation :: "string \<Rightarrow> Session \<Rightarrow> Organisation \<times> Session" where
  "create_organisation nm s = add_commit_refresh_organisation nm s"

definition get_organisations :: "Session \<Rightarrow> Organisation list" where
  "get_organisations s = organisation_rows s"

definition get_organisation_by_id :: "int \<Rightarrow> Session \<Rightarrow> Organisation option" where
  "get_organisation_by_id oid s = find (\<lambda>organisation. Organisation.id' organisation = oid) (organisation_rows s)"

definition create_location ::
  "int \<Rightarrow> string \<Rightarrow> real \<Rightarrow> real \<Rightarrow> Session \<Rightarrow> error + Location \<times> Session" where
  "create_location oid nm lon lat s = add_commit_refresh_location oid nm lon lat s"

text \<open>
  \<^verbatim>\<open>if bounding_box:\<close> tests an optional 4-tuple: \<^verbatim>\<open>None\<close> is false and every 4-tuple is
  true, whatever its components (a tuple is false only when it is empty).
\<close>

definition get_locations_by_organisation_id ::
  "int \<Rightarrow> (real \<times> real \<times> real \<times> real) option \<Rightarrow> Session \<Rightarrow> dict list" where
  "get_locations_by_organisation_id oid bounding_box s =
     (let query = where_query select_location_columns [\<lambda>l. Location.organisation_id l = oid];
          query =
            (case bounding_box of
               None \<Rightarrow> query
             | Some (min_lat, min_lon, max_lat, max_lon) \<Rightarrow>
                 where_query query
                   [\<lambda>l. Location.latitude l \<ge> min_lat,
                    \<lambda>l. Location.latitude l \<le> max_lat,
                    \<lambda>l. Location.longitude l \<ge> min_lon,
                    \<lambda>l. Location.longitude l \<le> max_lon]);
          locations = exec_all query s
      in map (\<lambda>(location_name, longitude, latitude).
                [(''location_name'', JStr location_name),
                 (''location_longitude'', JNum longitude),
                 (''location_latitude'', JNum latitude)])
           locations)"

section \<open>API layer (\<^verbatim>\<open>routes/organisations.py\<close>)\<close>

text \<open>
  The routes \<^verbatim>\<open>create_organisation\<close>, \<^verbatim>\<open>get_organisations\<close> and \<^verbatim>\<open>create_location\<close>
  carry the names of the repository functions they call; here they end in \<open>_route\<close>.
  A route returns its result, or ends with an \<open>error\<close>; a failure of the store passes
  through it uncaught.
\<close>

definition HTTP_404_NOT_FOUND :: int where
  "HTTP_404_NOT_FOUND = 404"

definition create_organisation_route ::
  "CreateOrganisation \<Rightarrow> Session \<Rightarrow> error + Organisation \<times> Session" where
  "create_organisation_route body s =
     (let organisation = create_organisation (CreateOrganisation.name body) s
      in Inr organisation)"

definition get_organisations_route :: "Session \<Rightarrow> error + Organisation list" where
  "get_organisations_route s =
     (let organisations = get_organisations s
      in Inr organisations)"

definition get_organisation :: "int \<Rightarrow> Session \<Rightarrow> error + Organisation" where
  "get_organisation oid s =
     (case get_organisation_by_id oid s of
        None \<Rightarrow> Inl (HTTPException HTTP_404_NOT_FOUND ''Organisation not found'')
      | Some organisation \<Rightarrow> Inr organisation)"

definition create_location_route ::
  "CreateLocation \<Rightarrow> Session \<Rightarrow> error + Location \<times> Session" where
  "create_location_route body s =
     create_location
       (CreateLocation.organisation_id body)
       (CreateLocation.location_name body)
       (CreateLocation.longitude body)
       (CreateLocation.latitude body)
       s"

text \<open>
  The route declares \<^verbatim>\<open>bounding_box: Optional[Tuple[int, int, int, int]]\<close> and hands the
  tuple to the repository function, which compares its integers with the stored
  floating-point coordinates.
\<close>

definition get_organisation_locations ::
  "int \<Rightarrow> (int \<times> int \<times> int \<times> int) option \<Rightarrow> Session \<Rightarrow> error + dict list" where
  "get_organisation_locations oid bounding_box s =
     (let result =
            get_locations_by_organisation_id oid
              (map_option
                 (\<lambda>(min_lat, min_lon, max_lat, max_lon).
                    (real_of_int min_lat, real_of_int min_lon,
                     real_of_int max_lat, real_of_int max_lon))
                 bounding_box)
              s
      in Inr result)"

text \<open>
  The framework in front of the route: the query parameter \<^verbatim>\<open>bounding_box\<close> arrives as
  the numbers the client wrote, or not at all (the default \<^verbatim>\<open>Query(None)\<close>). The declared
  type asks for exactly four integers; anything else is refused before the route runs. A
  number is taken by its value, so the spelling of an integer plays no part.
\<close>

definition is_integer :: "real \<Rightarrow> bool" where
  "is_integer x = (real_of_int \<lfloor>x\<rfloor> = x)"

definition validate_bounding_box ::
  "real list option \<Rightarrow> error + (int \<times> int \<times> int \<times> int) option" where
  "validate_bounding_box raw =
     (case raw of
        None \<Rightarrow> Inr None
      | Some [a, b, c, d] \<Rightarrow>
          if is_integer a \<and> is_integer b \<and> is_integer c \<and> is_integer d
          then Inr (Some (\<lfloor>a\<rfloor>, \<lfloor>b\<rfloor>, \<lfloor>c\<rfloor>, \<lfloor>d\<rfloor>))
          else Inl RequestValidationError
      | Some _ \<Rightarrow> Inl RequestValidationError)"

definition get_organisation_locations_request ::
  "int \<Rightarrow> real list option \<Rightarrow> Session \<Rightarrow> error + dict list" where
  "get_organisation_locations_request oid raw s =
     (case validate_bounding_box raw of
        Inl e \<Rightarrow> Inl e
      | Inr bounding_box \<Rightarrow> get_organisation_locations oid bounding_box s)"

text \<open>
  The status of the response: 200 for a result (no route sets another), the code of an
  \<^verbatim>\<open>HTTPException\<close>, 422 for a refused request, 500 for an uncaught failure.
\<close>

fun status_code :: "error + 'a \<Rightarrow> int" where
  "status_code (Inr _) = 200"
| "status_code (Inl (HTTPException code _)) = code"
| "status_code (Inl RequestValidationError) = 422"
| "status_code (Inl IntegrityError) = 500"

text \<open>
  The loop of the tests that creates one organisation per name of a list, in order.
\<close>

fun create_organisations :: "string list \<Rightarrow> Session \<Rightarrow> Session" where
  "create_organisations [] s = s"
| "create_organisations (nm # nms) s = create_organisations nms (snd (create_organisation nm s))"

text \<open>
  The rectangle of a bounding box, as the glossary words it: latitude in
  \<open>[min_lat, max_lat]\<close> and longitude in \<open>[min_lon, max_lon]\<close>, the bounds included.
\<close>

definition in_bounding_box :: "real \<times> real \<times> real \<times> real \<Rightarrow> Location \<Rightarrow> bool" where
  "in_bounding_box bb l =
     (case bb of (min_lat, min_lon, max_lat, max_lon) \<Rightarrow>
        Location.latitude l \<in> {min_lat .. max_lat} \<and> Location.longitude l \<in> {min_lon .. max_lon})"

text \<open>The three fields of a location that a list response shows.\<close>

definition projection :: "Location \<Rightarrow> dict" where
  "projection l =
     [(''location_name'', JStr (Location.location_name l)),
      (''location_longitude'', JNum (Location.longitude l)),
      (''location_latitude'', JNum (Location.latitude l))]"

text \<open>
  Every stored location refers to a stored organisation. The repository never checks it;
  a store that enforces the foreign key keeps it so.
\<close>

definition referential_integrity :: "Session \<Rightarrow> bool" where
  "referential_integrity s =
     list_all (\<lambda>l. Location.organisation_id l \<in> set (map Organisation.id' (organisation_rows s)))
       (location_rows s)"

section \<open>Concrete stores\<close>

text \<open>
  The store of \<^verbatim>\<open>test_get_locations_with_bounding_box\<close> after its three locations are
  created, with a second organisation that has no location.
\<close>

definition example_store :: Session where
  "example_store =
     \<lparr>organisation_rows =
        [\<lparr>Organisation.id' = 1, Organisation.name = ''Organisation with Bounding Box''\<rparr>,
         \<lparr>Organisation.id' = 2, Organisation.name = ''organisation_b''\<rparr>],
      location_rows =
        [\<lparr>Location.id' = 1, organisation_id = 1, location_name = ''Location A'',
          longitude = 10, latitude = 20\<rparr>,
         \<lparr>Location.id' = 2, organisation_id = 1, location_name = ''Location B'',
          longitude = 15, latitude = 25\<rparr>,
         \<lparr>Location.id' = 3, organisation_id = 1, location_name = ''Location C'',
          longitude = 30, latitude = 35\<rparr>],
      foreign_keys = False\<rparr>"

text \<open>
  A location whose organisation was never created, and the store that holds nothing else.
\<close>

definition orphan_location :: Location where
  "orphan_location =
     \<lparr>Location.id' = 1, organisation_id = 777, location_name = ''Depot'',
      longitude = 10, latitude = 20\<rparr>"

definition orphan_store :: Session where
  "orphan_store =
     \<lparr>organisation_rows = [], location_rows = [orphan_location], foreign_keys = False\<rparr>"

text \<open>
  Two locations of one organisation whose latitudes, 10.5 and 10.25, lie between the same
  two integers.
\<close>

definition fraction_store :: Session where
  "fraction_store =
     \<lparr>organisation_rows = [\<lparr>Organisation.id' = 1, Organisation.name = ''organisation_a''\<rparr>],
      location_rows =
        [\<lparr>Location.id' = 1, organisation_id = 1, location_name = ''North'',
          longitude = 10, latitude = 21 / 2\<rparr>,
         \<lparr>Location.id' = 2, organisation_id = 1, location_name = ''South'',
          longitude = 10, latitude = 41 / 4\<rparr>],
      foreign_keys = False\<rparr>"

section \<open>What the repository functions compute\<close>

lemma get_locations_None:
  "get_locations_by_organisation_id oid None s =
     map projection (filter (\<lambda>l. Location.organisation_id l = oid) (location_rows s))"
  by (simp add: get_locations_by_organisation_id_def exec_all_def where_query_def
      select_location_columns_def projection_def)

lemma get_locations_Some:
  "get_locations_by_organisation_id oid (Some (min_lat, min_lon, max_lat, max_lon)) s =
     map projection
       (filter (\<lambda>l. Location.organisation_id l = oid \<and>
                     min_lat \<le> Location.latitude l \<and> Location.latitude l \<le> max_lat \<and>
                     min_lon \<le> Location.longitude l \<and> Location.longitude l \<le> max_lon)
          (location_rows s))"
  by (simp add: get_locations_by_organisation_id_def exec_all_def where_query_def
      select_location_columns_def projection_def)

lemma get_locations_filter:
  "get_locations_by_organisation_id oid bounding_box s =
     map projection
       (filter (\<lambda>l. Location.organisation_id l = oid \<and>
                     (case bounding_box of None \<Rightarrow> True | Some bb \<Rightarrow> in_bounding_box bb l))
          (location_rows s))"
proof (cases bounding_box)
  case None
  then show ?thesis by (simp add: get_locations_None)
next
  case (Some bb)
  obtain a b c d where "bb = (a, b, c, d)" by (cases bb) auto
  with Some show ?thesis by (simp add: get_locations_Some in_bounding_box_def)
qed

lemma foldr_max_ge: "x \<in> set ids \<Longrightarrow> x \<le> foldr max ids (0::int)"
  by (induction ids) auto

lemma next_rowid_fresh: "next_rowid ids \<notin> set ids"
  using foldr_max_ge [of "next_rowid ids" ids] by (auto simp: next_rowid_def)

lemma find_id_None:
  "(find (\<lambda>organisation. Organisation.id' organisation = oid) rows = None) =
     (\<forall>organisation \<in> set rows. Organisation.id' organisation \<noteq> oid)"
  by (auto simp: find_None_iff)

lemma find_id_Some:
  "find (\<lambda>organisation. Organisation.id' organisation = oid) rows = Some organisation \<Longrightarrow>
     organisation \<in> set rows \<and> Organisation.id' organisation = oid"
  by (induction rows) (auto split: if_splits)

lemma find_id_distinct:
  "distinct (map Organisation.id' rows) \<Longrightarrow> organisation \<in> set rows \<Longrightarrow>
     find (\<lambda>r. Organisation.id' r = Organisation.id' organisation) rows = Some organisation"
  by (induction rows) (auto simp: image_iff)

lemma rows_create_organisation:
  "organisation_rows (snd (create_organisation nm s)) =
     organisation_rows s @ [fst (create_organisation nm s)]"
  "location_rows (snd (create_organisation nm s)) = location_rows s"
  "foreign_keys (snd (create_organisation nm s)) = foreign_keys s"
  "Organisation.name (fst (create_organisation nm s)) = nm"
  "Organisation.id' (fst (create_organisation nm s)) =
     next_rowid (map Organisation.id' (organisation_rows s))"
  by (simp_all add: create_organisation_def add_commit_refresh_organisation_def Let_def)

lemma create_organisation_id_fresh:
  "Organisation.id' (fst (create_organisation nm s)) \<notin>
     set (map Organisation.id' (organisation_rows s))"
  unfolding rows_create_organisation by (rule next_rowid_fresh)

lemma create_organisation_distinct:
  "distinct (map Organisation.id' (organisation_rows s)) \<Longrightarrow>
     distinct (map Organisation.id' (organisation_rows (snd (create_organisation nm s))))"
  using create_organisation_id_fresh [of nm s] by (simp add: rows_create_organisation(1))

lemma create_organisations_names:
  "map Organisation.name (organisation_rows (create_organisations nms s)) =
     map Organisation.name (organisation_rows s) @ nms"
  by (induction nms arbitrary: s) (simp_all add: rows_create_organisation)

lemma create_organisations_distinct:
  "distinct (map Organisation.id' (organisation_rows s)) \<Longrightarrow>
     distinct (map Organisation.id' (organisation_rows (create_organisations nms s)))"
  by (induction nms arbitrary: s) (simp_all add: create_organisation_distinct)

lemma create_location_Inr:
  "create_location oid nm lon lat s = Inr (l, s') \<Longrightarrow>
     l = \<lparr>Location.id' = next_rowid (map Location.id' (location_rows s)),
          organisation_id = oid, location_name = nm, longitude = lon, latitude = lat\<rparr>
     \<and> s' = s\<lparr>location_rows := location_rows s @ [l]\<rparr>"
  by (auto simp: create_location_def add_commit_refresh_location_def Let_def split: if_splits)

lemma create_location_succeeds:
  "foreign_keys s \<longrightarrow> oid \<in> set (map Organisation.id' (organisation_rows s)) \<Longrightarrow>
     \<exists>l s'. create_location oid nm lon lat s = Inr (l, s')"
  by (auto simp: create_location_def add_commit_refresh_location_def Let_def)

lemma create_location_Inl:
  "(create_location oid nm lon lat s = Inl e) =
     (e = IntegrityError \<and> foreign_keys s \<and>
      oid \<notin> set (map Organisation.id' (organisation_rows s)))"
  by (auto simp: create_location_def add_commit_refresh_location_def Let_def)

text \<open>
  The example store is the one the calls of the test build: two organisations, then three
  locations under the first.
\<close>

lemma example_store_reached:
  "create_organisations [''Organisation with Bounding Box'', ''organisation_b''] (empty_store False)
     = example_store\<lparr>location_rows := []\<rparr>
   \<and> (\<exists>l1 s1 l2 s2 l3.
        create_location 1 ''Location A'' 10 20 (example_store\<lparr>location_rows := []\<rparr>) = Inr (l1, s1) \<and>
        create_location 1 ''Location B'' 15 25 s1 = Inr (l2, s2) \<and>
        create_location 1 ''Location C'' 30 35 s2 = Inr (l3, example_store))"
  by (simp add: create_organisation_def add_commit_refresh_organisation_def create_location_def
      add_commit_refresh_location_def empty_store_def example_store_def next_rowid_def Let_def)

text \<open>
  In a store that enforces the foreign key, creating organisations and locations keeps
  every location's reference valid.
\<close>

lemma create_organisation_integrity:
  "referential_integrity s \<Longrightarrow> referential_integrity (snd (create_organisation nm s))"
  by (auto simp: referential_integrity_def rows_create_organisation list_all_iff)

lemma create_location_integrity:
  "foreign_keys s \<Longrightarrow> referential_integrity s \<Longrightarrow>
     create_location oid nm lon lat s = Inr (l, s') \<Longrightarrow> referential_integrity s'"
  by (auto simp: referential_integrity_def create_location_def add_commit_refresh_location_def
      Let_def list_all_iff split: if_splits)

section \<open>Listing the locations of an organisation\<close>

text \<open>
  C1. For every organisation id, bounding box \<open>(min_lat, min_lon, max_lat, max_lon)\<close> and
  stored locations, \<^verbatim>\<open>get_locations_by_organisation_id\<close> with the bounding box returns
  exactly the locations of the organisation whose latitude lies in \<open>[min_lat, max_lat]\<close>
  and whose longitude lies in \<open>[min_lon, max_lon]\<close>, each projected to its three fields;
  all four bounds are inclusive.
\<close>

theorem bounding_box_filter_inclusive:
  "get_locations_by_organisation_id oid (Some (min_lat, min_lon, max_lat, max_lon)) s =
     map projection
       (filter (\<lambda>l. Location.organisation_id l = oid \<and>
                     min_lat \<le> Location.latitude l \<and> Location.latitude l \<le> max_lat \<and>
                     min_lon \<le> Location.longitude l \<and> Location.longitude l \<le> max_lon)
          (location_rows s))"
  by (simp add: get_locations_by_organisation_id_def exec_all_def where_query_def
      select_location_columns_def projection_def)

text \<open>
  The case of the spec and of the test: locations at (lon 10, lat 20), (lon 15, lat 25) and
  (lon 30, lat 35), box (10, 10, 25, 25). The first two are returned, the second with its
  latitude on the upper bound and the first with its longitude on the lower bound.
\<close>

theorem bounding_box_filter_inclusive_witness:
  "get_locations_by_organisation_id 1 (Some (10, 10, 25, 25)) example_store =
     [[(''location_name'', JStr ''Location A''), (''location_longitude'', JNum 10),
       (''location_latitude'', JNum 20)],
      [(''location_name'', JStr ''Location B''), (''location_longitude'', JNum 15),
       (''location_latitude'', JNum 25)]]"
  using bounding_box_filter_inclusive [of 1 10 10 25 25 example_store]
  by (simp add: example_store_def projection_def)

text \<open>
  C7. Each element that \<^verbatim>\<open>get_locations_by_organisation_id\<close> returns has exactly the
  three keys \<^verbatim>\<open>location_name\<close>, \<^verbatim>\<open>location_longitude\<close> and \<^verbatim>\<open>location_latitude\<close>, in
  this order, with the name and the coordinates of a stored location of the organisation as
  their values; neither \<^verbatim>\<open>id\<close> nor \<^verbatim>\<open>organisation_id\<close> is a key of it.
\<close>

theorem location_projection_fields:
  "\<forall>d \<in> set (get_locations_by_organisation_id oid bounding_box s).
     map fst d = [''location_name'', ''location_longitude'', ''location_latitude'']
     \<and> ''id'' \<notin> fst ` set d
     \<and> ''organisation_id'' \<notin> fst ` set d
     \<and> (\<exists>l \<in> set (location_rows s).
           Location.organisation_id l = oid \<and>
           map snd d =
             [JStr (Location.location_name l), JNum (Location.longitude l),
              JNum (Location.latitude l)])"
  by (auto simp: get_locations_filter projection_def)

theorem location_projection_fields_witness:
  "[(''location_name'', JStr ''Location C''), (''location_longitude'', JNum 30),
    (''location_latitude'', JNum 35)]
     \<in> set (get_locations_by_organisation_id 1 None example_store)
   \<and> map fst
        [(''location_name'', JStr ''Location C''), (''location_longitude'', JNum 30),
         (''location_latitude'', JNum 35)]
      = [''location_name'', ''location_longitude'', ''location_latitude'']"
proof -
  have "[(''location_name'', JStr ''Location C''), (''location_longitude'', JNum 30),
         (''location_latitude'', JNum 35)]
     \<in> set (get_locations_by_organisation_id 1 None example_store)"
    by (simp add: get_locations_None example_store_def projection_def)
  with location_projection_fields [of 1 None example_store] show ?thesis
    by blast
qed

text \<open>
  C8. Isolation by \<^verbatim>\<open>organisation_id\<close>: for distinct organisation ids A and B, creating a
  location under A leaves the list of B as it was, with or without a bounding box; and the
  list of B is the same when every location of A is taken out of the store, so no location
  of A is among the rows it is built from.
\<close>

theorem locations_isolated_by_organisation:
  "A \<noteq> B \<Longrightarrow>
     (\<forall>l s'. create_location A nm lon lat s = Inr (l, s') \<longrightarrow>
        get_locations_by_organisation_id B bounding_box s' =
        get_locations_by_organisation_id B bounding_box s)
     \<and> get_locations_by_organisation_id B bounding_box
         (s\<lparr>location_rows := filter (\<lambda>l. Location.organisation_id l \<noteq> A) (location_rows s)\<rparr>) =
       get_locations_by_organisation_id B bounding_box s"
proof -
  assume ne: "A \<noteq> B"
  have "get_locations_by_organisation_id B bounding_box s' =
        get_locations_by_organisation_id B bounding_box s"
    if "create_location A nm lon lat s = Inr (l, s')" for l s'
    using create_location_Inr [OF that] ne by (simp add: get_locations_filter)
  moreover have "get_locations_by_organisation_id B bounding_box
         (s\<lparr>location_rows := filter (\<lambda>l. Location.organisation_id l \<noteq> A) (location_rows s)\<rparr>) =
       get_locations_by_organisation_id B bounding_box s"
  proof -
    have "filter (\<lambda>l. Location.organisation_id l \<noteq> A \<and> Location.organisation_id l = B \<and>
                      (case bounding_box of None \<Rightarrow> True | Some bb \<Rightarrow> in_bounding_box bb l))
            (location_rows s) =
          filter (\<lambda>l. Location.organisation_id l = B \<and>
                      (case bounding_box of None \<Rightarrow> True | Some bb \<Rightarrow> in_bounding_box bb l))
            (location_rows s)"
      using ne by (intro filter_cong) auto
    then show ?thesis by (simp add: get_locations_filter)
  qed
  ultimately show ?thesis by blast
qed

theorem locations_isolated_by_organisation_witness:
  "(1::int) \<noteq> 2
   \<and> create_location 1 ''Location D'' 12 22 example_store =
       Inr (\<lparr>Location.id' = 4, organisation_id = 1, location_name = ''Location D'',
             longitude = 12, latitude = 22\<rparr>,
            example_store\<lparr>location_rows := location_rows example_store @
              [\<lparr>Location.id' = 4, organisation_id = 1, location_name = ''Location D'',
                longitude = 12, latitude = 22\<rparr>]\<rparr>)
   \<and> get_locations_by_organisation_id 2 (Some (10, 10, 25, 25))
        (example_store\<lparr>location_rows := location_rows example_store @
           [\<lparr>Location.id' = 4, organisation_id = 1, location_name = ''Location D'',
             longitude = 12, latitude = 22\<rparr>]\<rparr>) = []"
proof -
  have e: "create_location 1 ''Location D'' 12 22 example_store =
       Inr (\<lparr>Location.id' = 4, organisation_id = 1, location_name = ''Location D'',
             longitude = 12, latitude = 22\<rparr>,
            example_store\<lparr>location_rows := location_rows example_store @
              [\<lparr>Location.id' = 4, organisation_id = 1, location_name = ''Location D'',
                longitude = 12, latitude = 22\<rparr>]\<rparr>)"
    by (simp add: create_location_def add_commit_refresh_location_def example_store_def
        next_rowid_def Let_def)
  have z: "get_locations_by_organisation_id 2 (Some (10, 10, 25, 25)) example_store = []"
    by (simp add: get_locations_Some example_store_def)
  have ne: "(1::int) \<noteq> 2" by simp
  from locations_isolated_by_organisation
         [OF ne, of "''Location D''" 12 22 example_store "Some (10, 10, 25, 25)"] e z ne
  show ?thesis by simp
qed

text \<open>
  C10. A degenerate bounding box gives the empty list: when \<open>min_lat > max_lat\<close> or
  \<open>min_lon > max_lon\<close>, \<^verbatim>\<open>get_locations_by_organisation_id\<close> returns no element,
  whatever the organisation id and the stored locations.
\<close>

theorem degenerate_bounding_box_empty:
  "max_lat < min_lat \<or> max_lon < min_lon \<Longrightarrow>
     get_locations_by_organisation_id oid (Some (min_lat, min_lon, max_lat, max_lon)) s = []"
  by (auto simp: get_locations_Some filter_empty_conv)

theorem degenerate_bounding_box_empty_witness:
  "(10::real) < 25
   \<and> get_locations_by_organisation_id 1 (Some (25, 10, 10, 25)) example_store = []
   \<and> get_locations_by_organisation_id 1 (Some (10, 25, 25, 10)) example_store = []
   \<and> get_locations_by_organisation_id 1 None example_store \<noteq> []"
  using degenerate_bounding_box_empty [of 10 25 25 10 1 example_store]
    degenerate_bounding_box_empty [of 25 10 10 25 1 example_store]
  by (simp add: get_locations_None example_store_def)

section \<open>Getting one organisation\<close>

text \<open>
  C2. The get-organisation operation fails with the 404 error whose detail is
  "Organisation not found" if and only if no organisation row has the id. When a row has
  it, the operation returns a row with that id, with status 200; where the keys of the
  table are distinct, as a primary key makes them, it is that very row.
\<close>

theorem get_organisation_not_found_iff:
  "(get_organisation oid s = Inl (HTTPException 404 ''Organisation not found'')) =
     (\<forall>organisation \<in> set (organisation_rows s). Organisation.id' organisation \<noteq> oid)
   \<and> (\<forall>organisation \<in> set (organisation_rows s). Organisation.id' organisation = oid \<longrightarrow>
        (\<exists>found \<in> set (organisation_rows s).
           Organisation.id' found = oid \<and>
           get_organisation oid s = Inr found \<and>
           status_code (get_organisation oid s) = 200 \<and>
           (distinct (map Organisation.id' (organisation_rows s)) \<longrightarrow> found = organisation)))"
proof (cases "get_organisation_by_id oid s")
  case None
  then have "\<forall>organisation \<in> set (organisation_rows s). Organisation.id' organisation \<noteq> oid"
    by (simp add: get_organisation_by_id_def find_id_None)
  with None show ?thesis
    by (simp add: get_organisation_def HTTP_404_NOT_FOUND_def)
next
  case (Some found)
  then have f: "found \<in> set (organisation_rows s)" "Organisation.id' found = oid"
    using find_id_Some [of oid "organisation_rows s" found]
    by (simp_all add: get_organisation_by_id_def)
  have u: "found = organisation"
    if "distinct (map Organisation.id' (organisation_rows s))"
      "organisation \<in> set (organisation_rows s)" "Organisation.id' organisation = oid"
    for organisation
    using that Some find_id_distinct [of "organisation_rows s" organisation]
    by (simp add: get_organisation_by_id_def)
  from Some f u show ?thesis
    by (auto simp: get_organisation_def)
qed

theorem get_organisation_not_found_iff_witness:
  "get_organisation 2 example_store =
     Inr \<lparr>Organisation.id' = 2, Organisation.name = ''organisation_b''\<rparr>
   \<and> status_code (get_organisation 2 example_store) = 200
   \<and> distinct (map Organisation.id' (organisation_rows example_store))
   \<and> get_organisation 99999 example_store = Inl (HTTPException 404 ''Organisation not found'')
   \<and> status_code (get_organisation 99999 example_store) = 404"
  using get_organisation_not_found_iff [of 2 example_store]
    get_organisation_not_found_iff [of 99999 example_store]
  by (simp add: example_store_def)

section \<open>Listing locations under an id that matches no organisation\<close>

text \<open>
  C3, as the claim states it, fails: the repository inserts a location without looking for
  its organisation, so a store that does not enforce the foreign key can hold a location
  under an id that matches no organisation, and the list for that id is not empty. Here
  the location is created through \<^verbatim>\<open>create_location\<close> in an empty store.
\<close>

theorem list_locations_unmatched_id_counterexample:
  "create_location 777 ''Depot'' 10 20 (empty_store False) = Inr (orphan_location, orphan_store)
   \<and> get_organisation_by_id 777 orphan_store = None
   \<and> get_organisation_locations 777 None orphan_store =
       Inr [[(''location_name'', JStr ''Depot''), (''location_longitude'', JNum 10),
             (''location_latitude'', JNum 20)]]"
  by (simp add: create_location_def add_commit_refresh_location_def empty_store_def
      next_rowid_def Let_def orphan_location_def orphan_store_def get_organisation_by_id_def
      get_organisation_locations_def get_locations_None projection_def)

text \<open>
  C3, amended. The list-organisation-locations operation never ends with a 404, whether
  the id matches an organisation or not, and the route itself always succeeds. It returns
  the empty sequence when no stored location carries the id; this is so for every id that
  matches no organisation when every stored location refers to a stored organisation.
\<close>

theorem list_locations_never_not_found:
  "status_code (get_organisation_locations_request oid raw s) \<noteq> 404
   \<and> status_code (get_organisation_locations oid bounding_box s) = 200
   \<and> ((\<forall>l \<in> set (location_rows s). Location.organisation_id l \<noteq> oid) \<longrightarrow>
        get_organisation_locations oid bounding_box s = Inr [])
   \<and> (referential_integrity s \<and> oid \<notin> set (map Organisation.id' (organisation_rows s)) \<longrightarrow>
        get_organisation_locations oid bounding_box s = Inr [])"
proof -
  have a: "status_code (get_organisation_locations_request oid raw s) \<noteq> 404"
    by (cases "validate_bounding_box raw")
      (auto simp: get_organisation_locations_request_def get_organisation_locations_def
         validate_bounding_box_def split: option.splits list.splits if_splits)
  have b: "status_code (get_organisation_locations oid bounding_box s) = 200"
    by (simp add: get_organisation_locations_def)
  have c: "get_organisation_locations oid bounding_box s = Inr []"
    if "\<forall>l \<in> set (location_rows s). Location.organisation_id l \<noteq> oid"
    using that by (simp add: get_organisation_locations_def get_locations_filter)
  have d: "\<forall>l \<in> set (location_rows s). Location.organisation_id l \<noteq> oid"
    if "referential_integrity s" "oid \<notin> set (map Organisation.id' (organisation_rows s))"
    using that by (auto simp: referential_integrity_def list_all_iff)
  from a b c d show ?thesis by blast
qed

theorem list_locations_never_not_found_witness:
  "status_code (get_organisation_locations_request 99999 (Some [10, 10, 25, 25]) example_store) \<noteq> 404
   \<and> status_code (get_organisation_locations 99999 None example_store) = 200
   \<and> get_organisation_locations 99999 None example_store = Inr []
   \<and> referential_integrity example_store
   \<and> 99999 \<notin> set (map Organisation.id' (organisation_rows example_store))"
  using list_locations_never_not_found [of 99999 "Some [10, 10, 25, 25]" example_store None]
  by (simp add: example_store_def referential_integrity_def)

section \<open>The bounding box as a query parameter\<close>

text \<open>
  C4. The claim: the list-organisation-locations operation accepts a bounding box of four
  numbers and, for every numeric 4-tuple, also one with a component that is not an integer,
  filters by exactly those values. The code does not: the route declares the parameter as
  \<^verbatim>\<open>Tuple[int, int, int, int]\<close>, while the repository function it calls declares
  \<^verbatim>\<open>Tuple[float, float, float, float]\<close> and the coordinates are floating-point. At the
  request with \<open>(10.5, 10, 25, 25)\<close> for organisation 1 of the example store, the
  operation ends with a validation failure, where the repository function given the same
  four numbers returns the two locations inside the box.
\<close>

theorem bounding_box_query_non_integer_counterexample:
  "get_organisation_locations_request 1 (Some [21 / 2, 10, 25, 25]) example_store =
     Inl RequestValidationError
   \<and> get_locations_by_organisation_id 1 (Some (21 / 2, 10, 25, 25)) example_store =
       [[(''location_name'', JStr ''Location A''), (''location_longitude'', JNum 10),
         (''location_latitude'', JNum 20)],
        [(''location_name'', JStr ''Location B''), (''location_longitude'', JNum 15),
         (''location_latitude'', JNum 25)]]"
  by (simp add: get_organisation_locations_request_def validate_bounding_box_def is_integer_def
      get_locations_Some example_store_def projection_def)

text \<open>
  The same defect seen from the route alone, whatever stands in front of it: an integer
  that is at most 10.5 is at most 10.25, and one that is at least 10.5 is at least 10.25,
  so no box of integers separates the two locations of \<open>fraction_store\<close>, which the box
  \<open>(10.5, 10, 25, 25)\<close> does in the repository function. The route has no argument for
  which it returns what the repository function returns for that box.
\<close>

lemma integer_bounds_around_half:
  fixes a c :: int
  assumes "real_of_int a \<le> 21 / 2" and "21 / 2 \<le> real_of_int c"
  shows "real_of_int a \<le> 41 / 4 \<and> 41 / 4 \<le> real_of_int c"
proof -
  from assms(1) have "a \<le> \<lfloor>21 / 2 :: real\<rfloor>" by (simp only: le_floor_iff)
  moreover have "\<lfloor>21 / 2 :: real\<rfloor> = 10" by simp
  ultimately have "a \<le> 10" by simp
  then have "real_of_int a \<le> 10" by simp
  then have 1: "real_of_int a \<le> 41 / 4" by simp
  from assms(2) have "\<lceil>21 / 2 :: real\<rceil> \<le> c" by (simp only: ceiling_le_iff)
  moreover have "\<lceil>21 / 2 :: real\<rceil> = 11" by simp
  ultimately have "11 \<le> c" by simp
  then have "11 \<le> real_of_int c" by simp
  then have 2: "41 / 4 \<le> real_of_int c" by simp
  from 1 2 show ?thesis ..
qed

lemma route_cannot_express_fractional_box:
  "get_locations_by_organisation_id 1 (Some (21 / 2, 10, 25, 25)) fraction_store =
     [[(''location_name'', JStr ''North''), (''location_longitude'', JNum 10),
       (''location_latitude'', JNum (21 / 2))]]
   \<and> (\<forall>bounding_box.
        get_organisation_locations 1 bounding_box fraction_store \<noteq>
        Inr (get_locations_by_organisation_id 1 (Some (21 / 2, 10, 25, 25)) fraction_store))"
proof -
  define north where "north =
    \<lparr>Location.id' = 1, organisation_id = 1, location_name = ''North'',
     longitude = 10, latitude = 21 / 2\<rparr>"
  define south where "south =
    \<lparr>Location.id' = 2, organisation_id = 1, location_name = ''South'',
     longitude = 10, latitude = 41 / 4\<rparr>"
  have rows: "location_rows fraction_store = [north, south]"
    by (simp add: fraction_store_def north_def south_def)
  have pn: "projection north =
     [(''location_name'', JStr ''North''), (''location_longitude'', JNum 10),
       (''location_latitude'', JNum (21 / 2))]"
    by (simp add: projection_def north_def)
  have ps: "projection south \<noteq> projection north"
    by (simp add: projection_def north_def south_def)
  have r: "get_locations_by_organisation_id 1 (Some (21 / 2, 10, 25, 25)) fraction_store =
     [projection north]"
    by (simp add: get_locations_Some rows) (simp add: north_def south_def)
  have "get_organisation_locations 1 bounding_box fraction_store \<noteq> Inr [projection north]"
    for bounding_box
  proof (cases bounding_box)
    case None
    then show ?thesis
      by (simp add: get_organisation_locations_def get_locations_None rows)
        (simp add: north_def south_def)
  next
    case (Some bb)
    obtain a b c d where bb: "bb = (a, b, c, d)" by (cases bb) auto
    define Q where "Q = (\<lambda>l :: Location. Location.organisation_id l = 1 \<and>
        real_of_int a \<le> Location.latitude l \<and> Location.latitude l \<le> real_of_int c \<and>
        real_of_int b \<le> Location.longitude l \<and> Location.longitude l \<le> real_of_int d)"
    have res: "get_organisation_locations 1 bounding_box fraction_store =
        Inr (map projection (filter Q [north, south]))"
      by (simp add: Some bb get_organisation_locations_def get_locations_Some rows Q_def)
    have lat: "Location.latitude north = 21 / 2" "Location.latitude south = 41 / 4"
      and other: "Location.longitude south = Location.longitude north"
        "Location.organisation_id south = Location.organisation_id north"
      by (simp_all add: north_def south_def)
    have qs: "Q south" if "Q north"
    proof -
      from that have "real_of_int a \<le> 21 / 2" "21 / 2 \<le> real_of_int c"
        unfolding Q_def lat by blast+
      from integer_bounds_around_half [OF this]
      have "real_of_int a \<le> Location.latitude south \<and> Location.latitude south \<le> real_of_int c"
        unfolding lat .
      with that show ?thesis
        unfolding Q_def other by blast
    qed
    show ?thesis
    proof (cases "Q north")
      case True
      with qs have "filter Q [north, south] = [north, south]" by simp
      then show ?thesis by (simp add: res)
    next
      case False
      then have "filter Q [north, south] = [] \<or> filter Q [north, south] = [south]" by simp
      with ps show ?thesis by (auto simp: res)
    qed
  qed
  with r pn show ?thesis by simp
qed

section \<open>Creating organisations\<close>

text \<open>
  C5. After a sequence of \<^verbatim>\<open>create_organisation\<close> calls with the names \<open>N1..Nk\<close> on an
  empty store, \<^verbatim>\<open>get_organisations\<close> returns exactly k organisations, the multiset of
  their names is that of \<open>N1..Nk\<close>, and their identifiers are pairwise distinct. Two
  creations with the same name give two rows, and the two organisations returned by the
  calls have distinct identifiers, in every store.
\<close>

theorem create_organisations_listed:
  "length (get_organisations (create_organisations nms (empty_store fk))) = length nms
   \<and> mset (map Organisation.name (get_organisations (create_organisations nms (empty_store fk))))
       = mset nms
   \<and> distinct (map Organisation.id' (get_organisations (create_organisations nms (empty_store fk))))
   \<and> length (get_organisations (create_organisations [nm, nm] (empty_store fk))) = 2
   \<and> distinct (map Organisation.id' (get_organisations (create_organisations [nm, nm] (empty_store fk))))
   \<and> Organisation.id' (fst (create_organisation nm s)) \<noteq>
       Organisation.id' (fst (create_organisation nm (snd (create_organisation nm s))))"
proof -
  let ?s = "create_organisations nms (empty_store fk)"
  have n: "map Organisation.name (organisation_rows ?s) = nms"
    using create_organisations_names [of nms "empty_store fk"] by (simp add: empty_store_def)
  have l: "length (organisation_rows ?s) = length nms"
    using arg_cong [OF n, of length] by simp
  have d: "distinct (map Organisation.id' (organisation_rows (create_organisations xs (empty_store fk))))"
    for xs
    by (rule create_organisations_distinct) (simp add: empty_store_def)
  have l2: "length (organisation_rows (create_organisations [nm, nm] (empty_store fk))) = 2"
    by (simp add: rows_create_organisation empty_store_def)
  have f: "Organisation.id' (fst (create_organisation nm s)) \<noteq>
       Organisation.id' (fst (create_organisation nm (snd (create_organisation nm s))))"
    using create_organisation_id_fresh [of nm "snd (create_organisation nm s)"]
    by (auto simp: rows_create_organisation(1))
  from n l d [of nms] d [of "[nm, nm]"] l2 f show ?thesis
    by (simp add: get_organisations_def)
qed

text \<open>
  The names of \<^verbatim>\<open>test_organisation_endpoints\<close>, and one name created twice.
\<close>

theorem create_organisations_listed_witness:
  "get_organisations
     (create_organisations [''organisation_a'', ''organisation_b'', ''organisation_c'']
        (empty_store False)) =
     [\<lparr>Organisation.id' = 1, Organisation.name = ''organisation_a''\<rparr>,
      \<lparr>Organisation.id' = 2, Organisation.name = ''organisation_b''\<rparr>,
      \<lparr>Organisation.id' = 3, Organisation.name = ''organisation_c''\<rparr>]
   \<and> get_organisations (create_organisations [''same'', ''same''] (empty_store False)) =
     [\<lparr>Organisation.id' = 1, Organisation.name = ''same''\<rparr>,
      \<lparr>Organisation.id' = 2, Organisation.name = ''same''\<rparr>]"
  using create_organisations_listed
    [of "[''organisation_a'', ''organisation_b'', ''organisation_c'']" False "''same''"
        "empty_store False"]
  by (simp add: get_organisations_def create_organisation_def add_commit_refresh_organisation_def
      empty_store_def next_rowid_def Let_def)

section \<open>Creating locations\<close>

text \<open>
  C6. Round trip: the location that a \<^verbatim>\<open>create_location\<close> call returns carries the
  organisation id, name, longitude and latitude of the call unchanged, and the list of the
  organisation read from the resulting store has an entry with that name, longitude and
  latitude. The call returns a location whenever the store does not refuse the row, that
  is, unless it enforces the foreign key and the organisation is missing.
\<close>

theorem create_location_round_trip:
  "(\<forall>l s'. create_location oid nm lon lat s = Inr (l, s') \<longrightarrow>
      Location.organisation_id l = oid \<and> Location.location_name l = nm \<and>
      Location.longitude l = lon \<and> Location.latitude l = lat \<and>
      [(''location_name'', JStr nm), (''location_longitude'', JNum lon),
       (''location_latitude'', JNum lat)]
        \<in> set (get_locations_by_organisation_id oid None s'))
   \<and> ((foreign_keys s \<longrightarrow> oid \<in> set (map Organisation.id' (organisation_rows s))) \<longrightarrow>
        (\<exists>l s'. create_location oid nm lon lat s = Inr (l, s')))"
proof -
  have "Location.organisation_id l = oid \<and> Location.location_name l = nm \<and>
      Location.longitude l = lon \<and> Location.latitude l = lat \<and>
      [(''location_name'', JStr nm), (''location_longitude'', JNum lon),
       (''location_latitude'', JNum lat)]
        \<in> set (get_locations_by_organisation_id oid None s')"
    if "create_location oid nm lon lat s = Inr (l, s')" for l s'
  proof -
    from create_location_Inr [OF that]
    have l: "l = \<lparr>Location.id' = next_rowid (map Location.id' (location_rows s)),
          organisation_id = oid, location_name = nm, longitude = lon, latitude = lat\<rparr>"
      and s': "location_rows s' = location_rows s @ [l]"
      by simp_all
    have "projection l \<in> set (get_locations_by_organisation_id oid None s')"
      unfolding get_locations_None s' by (simp add: l)
    then show ?thesis by (simp add: l projection_def)
  qed
  then show ?thesis
    using create_location_succeeds [of s oid nm lon lat] by blast
qed

theorem create_location_round_trip_witness:
  "create_location 1 ''Location D'' (7 / 2) (- 3 / 4) example_store =
     Inr (\<lparr>Location.id' = 4, organisation_id = 1, location_name = ''Location D'',
           longitude = 7 / 2, latitude = - 3 / 4\<rparr>,
          example_store\<lparr>location_rows := location_rows example_store @
            [\<lparr>Location.id' = 4, organisation_id = 1, location_name = ''Location D'',
              longitude = 7 / 2, latitude = - 3 / 4\<rparr>]\<rparr>)
   \<and> [(''location_name'', JStr ''Location D''), (''location_longitude'', JNum (7 / 2)),
       (''location_latitude'', JNum (- 3 / 4))]
        \<in> set (get_locations_by_organisation_id 1 None
             (example_store\<lparr>location_rows := location_rows example_store @
                [\<lparr>Location.id' = 4, organisation_id = 1, location_name = ''Location D'',
                  longitude = 7 / 2, latitude = - 3 / 4\<rparr>]\<rparr>))"
proof -
  have e: "create_location 1 ''Location D'' (7 / 2) (- 3 / 4) example_store =
     Inr (\<lparr>Location.id' = 4, organisation_id = 1, location_name = ''Location D'',
           longitude = 7 / 2, latitude = - 3 / 4\<rparr>,
          example_store\<lparr>location_rows := location_rows example_store @
            [\<lparr>Location.id' = 4, organisation_id = 1, location_name = ''Location D'',
              longitude = 7 / 2, latitude = - 3 / 4\<rparr>]\<rparr>)"
    by (simp add: create_location_def add_commit_refresh_location_def example_store_def
        next_rowid_def Let_def)
  from create_location_round_trip [of 1 "''Location D''" "7 / 2" "- 3 / 4" example_store] e
  show ?thesis by blast
qed

text \<open>
  C9. For every \<^verbatim>\<open>organisation_id\<close>, also one that refers to no organisation, the
  create-location operation inserts the row without any check of its own that the
  organisation exists. It never ends with an \<^verbatim>\<open>HTTPException\<close>, so never with a 404. Its
  only failure is the store's own refusal, which happens exactly when the store enforces
  the foreign key and the organisation is missing. Whenever it returns, the returned
  location is the row built from the four fields of the request and the resulting store is
  the old one with that row appended; it returns whenever the store does not refuse the
  row, so for every id in a store that does not enforce the foreign key.
\<close>

theorem create_location_no_existence_check:
  "(\<forall>code detail. create_location_route body s \<noteq> Inl (HTTPException code detail))
   \<and> status_code (create_location_route body s) \<noteq> 404
   \<and> (\<forall>e. (create_location_route body s = Inl e) =
        (e = IntegrityError \<and> foreign_keys s \<and>
         CreateLocation.organisation_id body \<notin> set (map Organisation.id' (organisation_rows s))))
   \<and> (\<forall>l s'. create_location_route body s = Inr (l, s') \<longrightarrow>
        l = \<lparr>Location.id' = next_rowid (map Location.id' (location_rows s)),
             organisation_id = CreateLocation.organisation_id body,
             location_name = CreateLocation.location_name body,
             longitude = CreateLocation.longitude body,
             latitude = CreateLocation.latitude body\<rparr>
        \<and> s' = s\<lparr>location_rows := location_rows s @ [l]\<rparr>)
   \<and> ((foreign_keys s \<longrightarrow>
          CreateLocation.organisation_id body \<in> set (map Organisation.id' (organisation_rows s))) \<longrightarrow>
        (\<exists>l s'. create_location_route body s = Inr (l, s') \<and>
           Location.organisation_id l = CreateLocation.organisation_id body \<and>
           location_rows s' = location_rows s @ [l] \<and>
           status_code (create_location_route body s) = 200))
   \<and> (\<not> foreign_keys s \<longrightarrow>
        (\<exists>l s'. create_location_route body s = Inr (l, s') \<and>
           Location.organisation_id l = CreateLocation.organisation_id body \<and>
           location_rows s' = location_rows s @ [l] \<and>
           status_code (create_location_route body s) = 200))"
proof -
  let ?r = "create_location_route body s"
  have i: "(?r = Inl e) =
        (e = IntegrityError \<and> foreign_keys s \<and>
         CreateLocation.organisation_id body \<notin> set (map Organisation.id' (organisation_rows s)))"
    for e
    unfolding create_location_route_def by (rule create_location_Inl)
  have h: "?r \<noteq> Inl (HTTPException code detail)" for code detail
    using i [of "HTTPException code detail"] by simp
  have n: "status_code ?r \<noteq> 404"
  proof (cases ?r)
    case (Inl e)
    with i [of e] show ?thesis by simp
  next
    case (Inr p)
    then show ?thesis by simp
  qed
  have r: "l = \<lparr>Location.id' = next_rowid (map Location.id' (location_rows s)),
             organisation_id = CreateLocation.organisation_id body,
             location_name = CreateLocation.location_name body,
             longitude = CreateLocation.longitude body,
             latitude = CreateLocation.latitude body\<rparr>
        \<and> s' = s\<lparr>location_rows := location_rows s @ [l]\<rparr>"
    if "?r = Inr (l, s')" for l s'
    using that unfolding create_location_route_def by (rule create_location_Inr)
  have a: "\<exists>l s'. ?r = Inr (l, s') \<and>
           Location.organisation_id l = CreateLocation.organisation_id body \<and>
           location_rows s' = location_rows s @ [l] \<and> status_code ?r = 200"
    if "foreign_keys s \<longrightarrow>
          CreateLocation.organisation_id body \<in> set (map Organisation.id' (organisation_rows s))"
    using that
    by (auto simp: create_location_route_def create_location_def add_commit_refresh_location_def
        Let_def)
  from a have b: "\<exists>l s'. ?r = Inr (l, s') \<and>
           Location.organisation_id l = CreateLocation.organisation_id body \<and>
           location_rows s' = location_rows s @ [l] \<and> status_code ?r = 200"
    if "\<not> foreign_keys s"
    using that by blast
  from i h n r a b show ?thesis by blast
qed

text \<open>
  An id that matches no organisation in a store that does not enforce the foreign key (the
  row is inserted), the same request in a store that enforces it (the store refuses), and
  an existing organisation in an enforcing store (the row is inserted).
\<close>

theorem create_location_no_existence_check_witness:
  "get_organisation_by_id 777 (empty_store False) = None
   \<and> \<not> foreign_keys (empty_store False)
   \<and> create_location_route
        \<lparr>CreateLocation.organisation_id = 777, CreateLocation.location_name = ''Depot'',
         CreateLocation.longitude = 10, CreateLocation.latitude = 20\<rparr>
        (empty_store False) = Inr (orphan_location, orphan_store)
   \<and> create_location_route
        \<lparr>CreateLocation.organisation_id = 777, CreateLocation.location_name = ''Depot'',
         CreateLocation.longitude = 10, CreateLocation.latitude = 20\<rparr>
        (empty_store True) = Inl IntegrityError
   \<and> create_location_route
        \<lparr>CreateLocation.organisation_id = 2, CreateLocation.location_name = ''Depot'',
         CreateLocation.longitude = 10, CreateLocation.latitude = 20\<rparr>
        (example_store\<lparr>foreign_keys := True\<rparr>) =
       Inr (\<lparr>Location.id' = 4, organisation_id = 2, location_name = ''Depot'',
             longitude = 10, latitude = 20\<rparr>,
            example_store\<lparr>location_rows := location_rows example_store @
              [\<lparr>Location.id' = 4, organisation_id = 2, location_name = ''Depot'',
                longitude = 10, latitude = 20\<rparr>],
              foreign_keys := True\<rparr>)"
  using create_location_no_existence_check
    [of "\<lparr>CreateLocation.organisation_id = 777, CreateLocation.location_name = ''Depot'',
          CreateLocation.longitude = 10, CreateLocation.latitude = 20\<rparr>" "empty_store False"]
    create_location_no_existence_check
    [of "\<lparr>CreateLocation.organisation_id = 777, CreateLocation.location_name = ''Depot'',
          CreateLocation.longitude = 10, CreateLocation.latitude = 20\<rparr>" "empty_store True"]
    create_location_no_existence_check
    [of "\<lparr>CreateLocation.organisation_id = 2, CreateLocation.location_name = ''Depot'',
          CreateLocation.longitude = 10, CreateLocation.latitude = 20\<rparr>"
        "example_store\<lparr>foreign_keys := True\<rparr>"]
  by (simp add: create_location_route_def create_location_def add_commit_refresh_location_def
      empty_store_def next_rowid_def Let_def orphan_location_def orphan_store_def
      get_organisation_by_id_def example_store_def)

end
